theory Spec2Isabelle
  imports Complex_Main
begin

section \<open>Python values, exceptions and effects\<close>

text \<open>
  The module \<^verbatim>\<open>data_help/modelling.py\<close> holds a block of module-level statements and two
  functions, \<^verbatim>\<open>train_classifier\<close> and \<^verbatim>\<open>feature_importance\<close>. Every \<^verbatim>\<open>raise\<close> and every
  exception that a call can throw is a value \<open>Inl e\<close>; what a call does besides returning
  (calls of estimator methods, console output, plotting calls) is a list of events in the order
  in which the statements run.
\<close>

datatype error =
    ValueError string
  | NameError string
  | AttributeError string
  | TypeError string
  | IndexError string
  | OtherError string

text \<open>The four metric functions of \<^verbatim>\<open>sklearn.metrics\<close> that line 55-60 put into \<^verbatim>\<open>scorers\<close>.\<close>

datatype scorer = accuracy_score | f1_score | precision_score | recall_score

text \<open>
  A Python float is either a number or \<^verbatim>\<open>nan\<close>; numbers are idealised as reals (rounding of
  the binary representation is not modelled).
\<close>

datatype pyfloat = NaN | Finite real

datatype ('x, 'y) event =
    CrossValScore 'x 'y scorer int
  | Fit 'x 'y
  | Predict 'x
  | PredictProba 'x
  | Print string
  | RocCurve 'y "real list"
  | RocAucScore 'y "real list"
  | PltPlot "real list" "real list" "(string \<times> string) list"
  | PltXlabel string
  | PltYlabel string
  | PltTitle string
  | PltSubplots
  | SnsBarplot "(string \<times> real) list"
  | SetXticklabels int
  | SetTitle string

text \<open>
  An estimator is an object with a mutable fitted state and an open set of attributes. A method
  the object does not have is \<open>None\<close>, so that \<^verbatim>\<open>hasattr\<close> is a test on the field and a call of
  a missing method is an \<^verbatim>\<open>AttributeError\<close>. \<^verbatim>\<open>fit\<close> works in place: it gets the state and
  gives the new one back, also when it raises. \<^verbatim>\<open>predict\<close> and \<^verbatim>\<open>predict_proba\<close> read the state.
  The field \<open>feature_importances\<close> stands for the attribute \<^verbatim>\<open>feature_importances_\<close>.
\<close>

record ('x, 'y, 's) estimator =
  state :: 's
  fit :: "('x \<Rightarrow> 'y \<Rightarrow> 's \<Rightarrow> (error + unit) \<times> 's) option"
  predict :: "('x \<Rightarrow> 's \<Rightarrow> error + 'y) option"
  predict_proba :: "('x \<Rightarrow> 's \<Rightarrow> error + real list list) option"
  feature_importances :: "real list option"

text \<open>
  The functions imported from scikit-learn, and the string conversions of Python, are
  parameters of the model: the module only calls them. \<open>cross_val_score\<close> gets the caller's
  estimator object and returns the per-fold scores or raises; \<open>cross_val_state\<close> is the state
  in which the same call leaves that object (for a library that works on clones, the state it
  had). \<open>format_float spec x\<close> is Python's \<^verbatim>\<open>format(x, spec)\<close> and \<open>str_ndarray\<close> is \<^verbatim>\<open>str\<close>
  on the confusion matrix.
\<close>

record ('x, 'y, 's) sklearn =
  cross_val_score ::
    "('x, 'y, 's) estimator option \<Rightarrow> 'x \<Rightarrow> 'y \<Rightarrow> scorer \<Rightarrow> int \<Rightarrow> error + real list"
  cross_val_state :: "('x, 'y, 's) estimator \<Rightarrow> 'x \<Rightarrow> 'y \<Rightarrow> scorer \<Rightarrow> int \<Rightarrow> 's"
  classification_report :: "'y \<Rightarrow> 'y \<Rightarrow> error + string"
  confusion_matrix :: "'y \<Rightarrow> 'y \<Rightarrow> error + nat list list"
  roc_curve :: "'y \<Rightarrow> real list \<Rightarrow> error + (real list \<times> real list \<times> real list)"
  roc_auc_score :: "'y \<Rightarrow> real list \<Rightarrow> error + real"
  format_float :: "string \<Rightarrow> pyfloat \<Rightarrow> string"
  str_ndarray :: "nat list list \<Rightarrow> string"

type_synonym ('x, 'y, 's) run =
  "(error + unit) \<times> ('x, 'y, 's) estimator option \<times> ('x, 'y) event list"

section \<open>Module-level backend selection (lines 13-16)\<close>

text \<open>
  \<^verbatim>\<open>matplotlib.pyplot.switch_backend(newbackend)\<close> has one required positional parameter and no
  default for it. A call is modelled by its list of positional arguments: with exactly one
  argument the backend is switched; any other number of arguments is the \<^verbatim>\<open>TypeError\<close> that
  Python raises when binding the arguments, before the body of the function runs. The module
  names no backend but \<open>Agg\<close>, which matplotlib always has: a name that matplotlib cannot load,
  and the count that the message for too many arguments gives, are left out of the model.
\<close>

fun switch_backend :: "string list \<Rightarrow> error + string" where
  "switch_backend [] =
     Inl (TypeError (''switch_backend() missing 1 required positional argument: 'newbackend''
                     @ [CHR 0x27]))"
| "switch_backend [newbackend] = Inr newbackend"
| "switch_backend (a # b # rest) =
     Inl (TypeError ''switch_backend() takes 1 positional argument but more were given'')"

text \<open>
  Loading the module: \<open>platform_system\<close> is the value of \<^verbatim>\<open>platform.system()\<close>. The result is
  the outcome of the import and the backends that were switched to, in order.
\<close>

definition module_load :: "string \<Rightarrow> (error + unit) \<times> string list" where
  "module_load platform_system =
     (if platform_system = ''Darwin'' then
        (case switch_backend [] of
           Inl e \<Rightarrow> (Inl e, [])
         | Inr b \<Rightarrow> (Inr (), [b]))
      else
        (case switch_backend [''Agg''] of
           Inl e \<Rightarrow> (Inl e, [])
         | Inr b \<Rightarrow> (Inr (), [b])))"

section \<open>\<^verbatim>\<open>train_classifier\<close> (lines 18-83)\<close>

text \<open>
  \<^verbatim>\<open>cv_score.mean()\<close> and \<^verbatim>\<open>cv_score.std()\<close> of a NumPy array: the arithmetic mean, and the
  standard deviation with the default \<^verbatim>\<open>ddof=0\<close>, which divides by the number of scores.
  On an empty array both are \<^verbatim>\<open>nan\<close>.
\<close>

definition ndarray_mean :: "real list \<Rightarrow> pyfloat" where
  "ndarray_mean a = (if a = [] then NaN else Finite (sum_list a / real (length a)))"

definition ndarray_std :: "real list \<Rightarrow> pyfloat" where
  "ndarray_std a =
     (if a = [] then NaN
      else (let mu = sum_list a / real (length a)
            in Finite (sqrt (sum_list (map (\<lambda>x. (x - mu)\<^sup>2) a) / real (length a)))))"

definition scorers :: "(string \<times> scorer) list" where
  "scorers =
     [(''Accuracy'', accuracy_score),
      (''F1-score'', f1_score),
      (''Precision'', precision_score),
      (''Recall'', recall_score)]"

text \<open>The line printed for one metric (line 65).\<close>

definition cv_line :: "('x, 'y, 's) sklearn \<Rightarrow> string \<Rightarrow> real list \<Rightarrow> string" where
  "cv_line L metric_name cv_score =
     metric_name @ '': '' @ format_float L ''.4f'' (ndarray_mean cv_score)
       @ '' +/- '' @ format_float L ''.4f'' (ndarray_std cv_score)"

text \<open>
  The caller's estimator after one call of \<open>cross_val_score\<close>: the same object, in the state
  the library leaves it in. \<^verbatim>\<open>None\<close> stays \<^verbatim>\<open>None\<close>.
\<close>

definition after_cross_val ::
  "('x, 'y, 's) sklearn \<Rightarrow> ('x, 'y, 's) estimator option \<Rightarrow> 'x \<Rightarrow> 'y \<Rightarrow> scorer \<Rightarrow> int \<Rightarrow>
   ('x, 'y, 's) estimator option" where
  "after_cross_val L estimator X_train y_train scoring cv =
     map_option (\<lambda>est. est\<lparr>state := cross_val_state L est X_train y_train scoring cv\<rparr>)
       estimator"

text \<open>
  The loop of lines 62-65 over a list of (name, scorer) pairs. A call of \<open>cross_val_score\<close>
  that raises ends the loop; the events so far stay. The module calls no method of the
  estimator here: it hands the object to \<open>cross_val_score\<close>, once per metric.
\<close>

fun cv_loop ::
  "('x, 'y, 's) sklearn \<Rightarrow> ('x, 'y, 's) estimator option \<Rightarrow> 'x \<Rightarrow> 'y \<Rightarrow> int \<Rightarrow>
   (string \<times> scorer) list \<Rightarrow> ('x, 'y, 's) run" where
  "cv_loop L estimator X_train y_train cv [] = (Inr (), estimator, [])"
| "cv_loop L estimator X_train y_train cv ((metric_name, scorer) # rest) =
     (case cross_val_score L estimator X_train y_train scorer cv of
        Inl e \<Rightarrow>
          (Inl e, after_cross_val L estimator X_train y_train scorer cv,
           [CrossValScore X_train y_train scorer cv])
      | Inr cv_score \<Rightarrow>
          (case cv_loop L (after_cross_val L estimator X_train y_train scorer cv)
                  X_train y_train cv rest of
             (r, est, evs) \<Rightarrow>
               (r, est, CrossValScore X_train y_train scorer cv
                          # Print (cv_line L metric_name cv_score) # evs)))"

text \<open>
  \<^verbatim>\<open>estimator.predict_proba(X_val)[:, 1]\<close>: column 1 of a two-dimensional array, an
  \<^verbatim>\<open>IndexError\<close> that gives the size of the axis when the rows have fewer than two entries.
\<close>

definition column1 :: "real list list \<Rightarrow> error + real list" where
  "column1 m =
     (case filter (\<lambda>row. length row \<le> 1) m of
        [] \<Rightarrow> Inr (map (\<lambda>row. row ! 1) m)
      | row # rest \<Rightarrow>
          Inl (IndexError (''index 1 is out of bounds for axis 1 with size ''
                           @ (if row = [] then ''0'' else ''1''))))"

text \<open>The ROC computation and plot of lines 75-83, from the positive-class probabilities.\<close>

definition roc_plot ::
  "('x, 'y, 's) sklearn \<Rightarrow> 'y \<Rightarrow> real list \<Rightarrow> (error + unit) \<times> ('x, 'y) event list" where
  "roc_plot L y_val y_pred_proba =
     (case roc_curve L y_val y_pred_proba of
        Inl e \<Rightarrow> (Inl e, [RocCurve y_val y_pred_proba])
      | Inr (fpr, tpr, thresholds) \<Rightarrow>
          (case roc_auc_score L y_val y_pred_proba of
             Inl e \<Rightarrow> (Inl e, [RocCurve y_val y_pred_proba, RocAucScore y_val y_pred_proba])
           | Inr roc_auc \<Rightarrow>
               (Inr (),
                [RocCurve y_val y_pred_proba,
                 RocAucScore y_val y_pred_proba,
                 PltPlot fpr tpr
                   [(''color'', ''darkorange''),
                    (''label'',
                     ''ROC curve (AUC = '' @ format_float L ''.2f'' (Finite roc_auc) @ '')'')],
                 PltPlot [0, 1] [0, 1] [(''color'', ''navy''), (''linestyle'', ''--'')],
                 PltXlabel ''False Positive Rate'',
                 PltYlabel ''True Positive Rate'',
                 PltTitle ''Receiver Operating Characteristic Curve''])))"

text \<open>
  Lines 73-83: the ROC branch, taken when the estimator has \<^verbatim>\<open>predict_proba\<close>; \<open>est\<close> is the
  estimator as the fit left it.
\<close>

definition roc_branch ::
  "('x, 'y, 's) sklearn \<Rightarrow> ('x, 'y, 's) estimator \<Rightarrow> 'x \<Rightarrow> 'y \<Rightarrow>
   (error + unit) \<times> ('x, 'y) event list" where
  "roc_branch L est X_val y_val =
     (case predict_proba est of
        None \<Rightarrow> (Inr (), [])
      | Some proba \<Rightarrow>
          (case proba X_val (state est) of
             Inl e \<Rightarrow> (Inl e, [PredictProba X_val])
           | Inr m \<Rightarrow>
               (case column1 m of
                  Inl e \<Rightarrow> (Inl e, [PredictProba X_val])
                | Inr y_pred_proba \<Rightarrow>
                    (case roc_plot L y_val y_pred_proba of
                       (r, evs) \<Rightarrow> (r, PredictProba X_val # evs)))))"

text \<open>
  Lines 68-83, after the fit: predict, print the classification report and the confusion
  matrix, then the ROC branch.
\<close>

definition evaluate ::
  "('x, 'y, 's) sklearn \<Rightarrow> ('x, 'y, 's) estimator \<Rightarrow> 'x \<Rightarrow> 'y \<Rightarrow>
   (error + unit) \<times> ('x, 'y) event list" where
  "evaluate L est X_val y_val =
     (case predict est of
        None \<Rightarrow> (Inl (AttributeError ''predict''), [])
      | Some predict_m \<Rightarrow>
          (case predict_m X_val (state est) of
             Inl e \<Rightarrow> (Inl e, [Predict X_val])
           | Inr y_pred \<Rightarrow>
               (case classification_report L y_val y_pred of
                  Inl e \<Rightarrow> (Inl e, [Predict X_val])
                | Inr report \<Rightarrow>
                    (case confusion_matrix L y_val y_pred of
                       Inl e \<Rightarrow> (Inl e, [Predict X_val, Print report])
                     | Inr cm \<Rightarrow>
                         (case roc_branch L est X_val y_val of
                            (r, evs) \<Rightarrow>
                              (r, [Predict X_val,
                                   Print report,
                                   Print (''Confusion Matrix:'' @ [CHR 0x0A] @ '' ''
                                            @ str_ndarray L cm)] @ evs))))))"

text \<open>
  Lines 67-83, the single-fit mode. \<^verbatim>\<open>estimator.fit\<close> on \<^verbatim>\<open>None\<close>, or on an object without
  that method, is an \<^verbatim>\<open>AttributeError\<close>. The state that \<open>fit\<close> leaves is the estimator's state
  from then on, whether \<open>fit\<close> raised or not.
\<close>

definition single_fit ::
  "('x, 'y, 's) sklearn \<Rightarrow> 'x \<Rightarrow> 'y \<Rightarrow> 'x \<Rightarrow> 'y \<Rightarrow> ('x, 'y, 's) estimator option \<Rightarrow>
   ('x, 'y, 's) run" where
  "single_fit L X_train y_train X_val y_val estimator =
     (case estimator of
        None \<Rightarrow> (Inl (AttributeError ''fit''), None, [])
      | Some est \<Rightarrow>
          (case fit est of
             None \<Rightarrow> (Inl (AttributeError ''fit''), Some est, [])
           | Some fit_m \<Rightarrow>
               (case fit_m X_train y_train (state est) of
                  (Inl e, s) \<Rightarrow> (Inl e, Some (est\<lparr>state := s\<rparr>), [Fit X_train y_train])
                | (Inr u, s) \<Rightarrow>
                    (case evaluate L (est\<lparr>state := s\<rparr>) X_val y_val of
                       (r, evs) \<Rightarrow>
                         (r, Some (est\<lparr>state := s\<rparr>), Fit X_train y_train # evs)))))"

text \<open>
  The function itself. An argument that is \<^verbatim>\<open>None\<close> is \<open>None\<close>; the four checks of lines
  42-52 come first and in the source's order, then the branch on \<^verbatim>\<open>cross_validate\<close>.
\<close>

definition train_classifier ::
  "('x, 'y, 's) sklearn \<Rightarrow> 'x option \<Rightarrow> 'y option \<Rightarrow> 'x option \<Rightarrow> 'y option \<Rightarrow>
   ('x, 'y, 's) estimator option \<Rightarrow> bool \<Rightarrow> int \<Rightarrow> ('x, 'y, 's) run" where
  "train_classifier L X_train y_train X_val y_val estimator cross_validate cv =
     (case X_train of
        None \<Rightarrow> (Inl (ValueError ''X_train is None''), estimator, [])
      | Some Xt \<Rightarrow>
     (case y_train of
        None \<Rightarrow> (Inl (ValueError ''y_train is None''), estimator, [])
      | Some yt \<Rightarrow>
     (case X_val of
        None \<Rightarrow> (Inl (ValueError ''X_val is None''), estimator, [])
      | Some Xv \<Rightarrow>
     (case y_val of
        None \<Rightarrow> (Inl (ValueError ''y_val is None''), estimator, [])
      | Some yv \<Rightarrow>
          (if cross_validate then cv_loop L estimator Xt yt cv scorers
           else single_fit L Xt yt Xv yv estimator)))))"

section \<open>\<^verbatim>\<open>feature_importance\<close> (lines 85-119)\<close>

text \<open>
  The values the second argument can be: \<^verbatim>\<open>None\<close> (the default), a string, a tuple or a list of
  names, or some other object, named.
\<close>

datatype pyval = PyNone | PyStr string | PyTuple "string list" | PyList "string list"
  | PyObject string

text \<open>
  How Python resolves a name inside a function body: the function's local scope (its
  parameters and assigned variables), then the module's global scope, then the builtins.
  A name found nowhere is a \<^verbatim>\<open>NameError\<close>. \<open>module_globals\<close> are the names that the module's
  imports and the two \<^verbatim>\<open>def\<close>s bind (lines 1-11, 18, 85); \<open>builtins\<close> are the builtin names
  the file refers to. A global or a builtin is an object that is no list.
\<close>

definition module_globals :: "string list" where
  "module_globals =
     [''cross_val_score'', ''accuracy_score'', ''f1_score'', ''precision_score'',
      ''recall_score'', ''confusion_matrix'', ''classification_report'', ''roc_curve'',
      ''roc_auc_score'', ''plt'', ''Union'', ''pd'', ''np'', ''sns'', ''platform'',
      ''train_classifier'', ''feature_importance'']"

definition builtins :: "string list" where
  "builtins =
     [''hasattr'', ''isinstance'', ''list'', ''len'', ''print'', ''ValueError'', ''object'',
      ''bool'', ''int'']"

definition lookup_name :: "(string \<times> pyval) list \<Rightarrow> string \<Rightarrow> pyval option" where
  "lookup_name locals name =
     (case map_of locals name of
        Some v \<Rightarrow> Some v
      | None \<Rightarrow>
          (if name \<in> set module_globals \<or> name \<in> set builtins then Some (PyObject name)
           else None))"

text \<open>\<^verbatim>\<open>isinstance(v, list)\<close>, and the items of a list (\<^verbatim>\<open>len\<close> is their number).\<close>

fun isinstance_list :: "pyval \<Rightarrow> bool" where
  "isinstance_list (PyList xs) = True"
| "isinstance_list v = False"

fun list_items :: "pyval \<Rightarrow> string list" where
  "list_items (PyList xs) = xs"
| "list_items v = []"

text \<open>\<^verbatim>\<open>hasattr(estimator, 'feature_importances_')\<close>; \<^verbatim>\<open>None\<close> has no such attribute.\<close>

definition hasattr_feature_importances :: "('x, 'y, 's) estimator option \<Rightarrow> bool" where
  "hasattr_feature_importances estimator =
     (case estimator of None \<Rightarrow> False | Some est \<Rightarrow> feature_importances est \<noteq> None)"

datatype figure = Figure
datatype axes = Axes

text \<open>
  The function. Its parameters, and so its local names, are \<^verbatim>\<open>estimator\<close> and \<^verbatim>\<open>col_name\<close>
  (line 85); the body reads the name \<^verbatim>\<open>col_names\<close> (lines 108 and 111), which is resolved as
  any name is. \<open>sort_values by ascending\<close> is pandas' \<^verbatim>\<open>DataFrame.sort_values\<close> on the
  two-column table, a parameter of the model.
\<close>

definition feature_importance ::
  "(string \<Rightarrow> bool \<Rightarrow> (string \<times> real) list \<Rightarrow> (string \<times> real) list) \<Rightarrow>
   ('x, 'y, 's) estimator option \<Rightarrow> pyval \<Rightarrow>
   (error + figure \<times> axes) \<times> ('x, 'y) event list" where
  "feature_importance sort_values estimator col_name =
     (if \<not> hasattr_feature_importances estimator then
        (Inl (ValueError
                ''The estimator does not have a 'feature_importances_' attribute.''), [])
      else
        (case lookup_name [(''estimator'', PyObject ''estimator''), (''col_name'', col_name)]
                ''col_names'' of
           None \<Rightarrow> (Inl (NameError (''name 'col_names' is not defined'')), [])
         | Some col_names \<Rightarrow>
             (let importances =
                    (case estimator of
                       None \<Rightarrow> []
                     | Some est \<Rightarrow>
                         (case feature_importances est of None \<Rightarrow> [] | Some fi \<Rightarrow> fi))
              in if \<not> isinstance_list col_names
                    \<or> length (list_items col_names) \<noteq> length importances then
                   (Inl (ValueError
                           (''The 'col_names' argument should be a list of the same ''
                            @ ''length as the feature importances.'')), [])
                 else
                   (let feats_imp = zip (list_items col_names) importances;
                        feats_imp = sort_values ''importance'' False feats_imp
                    in (Inr (Figure, Axes),
                        [PltSubplots,
                         SnsBarplot feats_imp,
                         SetXticklabels 90,
                         SetTitle ''Feature importance plot''])))))"

section \<open>Classification of events and the plotting state\<close>

text \<open>Events of the ROC computation and of the plotting library.\<close>

fun roc_or_plot :: "('x, 'y) event \<Rightarrow> bool" where
  "roc_or_plot (PredictProba X) = True"
| "roc_or_plot (RocCurve y p) = True"
| "roc_or_plot (RocAucScore y p) = True"
| "roc_or_plot (PltPlot xs ys kw) = True"
| "roc_or_plot (PltXlabel t) = True"
| "roc_or_plot (PltYlabel t) = True"
| "roc_or_plot (PltTitle t) = True"
| "roc_or_plot PltSubplots = True"
| "roc_or_plot (SnsBarplot t) = True"
| "roc_or_plot (SetXticklabels r) = True"
| "roc_or_plot (SetTitle t) = True"
| "roc_or_plot ev = False"





section \<open>Concrete collaborators\<close>

text \<open>
  A small estimator and library on which the functions can be evaluated: feature tables are
  lists of rows, labels are integers, and the estimator's state counts the fits.
  \<open>const_classifier\<close> predicts label 1 for every row and has neither \<^verbatim>\<open>predict_proba\<close> nor
  feature importances; \<open>forest\<close> is the same estimator with three importance scores, and
  \<open>proba_classifier\<close> the same estimator with a \<^verbatim>\<open>predict_proba\<close> that gives both classes the
  probability one half.
\<close>

definition const_classifier :: "(real list list, int list, nat) estimator" where
  "const_classifier =
     \<lparr>state = 0,
      fit = Some (\<lambda>X y s. (Inr (), Suc s)),
      predict = Some (\<lambda>X s. Inr (map (\<lambda>row. 1) X)),
      predict_proba = None,
      feature_importances = None\<rparr>"

definition forest :: "(real list list, int list, nat) estimator" where
  "forest = const_classifier\<lparr>feature_importances := Some [1 / 10, 1 / 2, 2 / 5]\<rparr>"


text \<open>
  What scikit-learn does with the \<^verbatim>\<open>scoring\<close> argument before any fold is evaluated: a callable
  whose module lies under \<^verbatim>\<open>sklearn.metrics\<close> (and is not the scorer module or a test module) is
  taken for a metric function, which has the signature \<^verbatim>\<open>(y_true, y_pred)\<close> and not the scorer's
  \<^verbatim>\<open>(estimator, X, y)\<close>, and is refused with a \<^verbatim>\<open>ValueError\<close>. The four functions that the module
  passes are defined in \<^verbatim>\<open>sklearn.metrics._classification\<close>. (The message shows the function
  without its address.)
\<close>

fun scorer_repr :: "scorer \<Rightarrow> string" where
  "scorer_repr accuracy_score = ''<function accuracy_score>''"
| "scorer_repr f1_score = ''<function f1_score>''"
| "scorer_repr precision_score = ''<function precision_score>''"
| "scorer_repr recall_score = ''<function recall_score>''"

fun scorer_module :: "scorer \<Rightarrow> string" where
  "scorer_module accuracy_score = ''sklearn.metrics._classification''"
| "scorer_module f1_score = ''sklearn.metrics._classification''"
| "scorer_module precision_score = ''sklearn.metrics._classification''"
| "scorer_module recall_score = ''sklearn.metrics._classification''"

definition startswith :: "string \<Rightarrow> string \<Rightarrow> bool" where
  "startswith s p = (take (length p) s = p)"

definition metric_as_scoring :: "scorer \<Rightarrow> error" where
  "metric_as_scoring scoring =
     ValueError (''scoring value '' @ scorer_repr scoring
                 @ '' looks like it is a metric function rather than a scorer. A scorer should''
                 @ '' require an estimator as its first parameter. Please use `make_scorer` to''
                 @ '' convert a metric to a scorer.'')"

definition check_scoring :: "scorer \<Rightarrow> error + unit" where
  "check_scoring scoring =
     (if startswith (scorer_module scoring) ''sklearn.metrics.''
         \<and> \<not> startswith (scorer_module scoring) ''sklearn.metrics._scorer''
         \<and> \<not> startswith (scorer_module scoring) ''sklearn.metrics.tests.''
      then Inl (metric_as_scoring scoring)
      else Inr ())"

text \<open>
  \<open>unit_sklearn\<close> checks the scoring argument as scikit-learn does, before it scores every fold
  1, and leaves the caller's estimator in the state it had. It reports the number of labels
  and writes the few floats that occur here as Python does.
\<close>

definition unit_sklearn :: "(real list list, int list, nat) sklearn" where
  "unit_sklearn =
     \<lparr>cross_val_score =
        (\<lambda>est X y sc cv.
           case check_scoring sc of
             Inl e \<Rightarrow> Inl e
           | Inr u \<Rightarrow> Inr (replicate (nat cv) 1)),
      cross_val_state = (\<lambda>est X y sc cv. state est),
      classification_report = (\<lambda>y_true y_pred. Inr ''report''),
      confusion_matrix = (\<lambda>y_true y_pred. Inr [[length y_true]]),
      roc_curve = (\<lambda>y_true p. Inr ([0, 1], [0, 1], [1, 0])),
      roc_auc_score = (\<lambda>y_true p. Inr (1 / 2)),
      format_float =
        (\<lambda>spec x. case x of
             NaN \<Rightarrow> ''nan''
           | Finite r \<Rightarrow>
               (if spec = ''.2f'' \<and> r = 1 / 2 then ''0.50''
                else if spec = ''.4f'' \<and> r = 1 then ''1.0000''
                else if spec = ''.4f'' \<and> r = 0 then ''0.0000''
                else ''?'')),
      str_ndarray = (\<lambda>m. ''[[..]]'')\<rparr>"

text \<open>
  \<open>strict_sklearn\<close> is \<open>unit_sklearn\<close> with a \<open>cross_val_score\<close> that first rejects \<^verbatim>\<open>None\<close> as an
  estimator.
\<close>

definition strict_sklearn :: "(real list list, int list, nat) sklearn" where
  "strict_sklearn =
     unit_sklearn
       \<lparr>cross_val_score :=
          (\<lambda>est X y sc cv.
             case est of
               None \<Rightarrow> Inl (TypeError ''estimator should implement 'fit', None was passed'')
             | Some e \<Rightarrow> cross_val_score unit_sklearn est X y sc cv)\<rparr>"

section \<open>Facts about the parts\<close>

subsection \<open>The cross-validation loop\<close>




text \<open>With \<^verbatim>\<open>None\<close> as the estimator, an error of the loop is an error of one of its calls.\<close>

lemma cv_loop_error:
  "cv_loop L None X y cv ms = (Inl e, est', evs) \<Longrightarrow>
     \<exists>sc \<in> snd ` set ms. cross_val_score L None X y sc cv = Inl e"
proof (induction ms arbitrary: est' evs)
  case Nil
  then show ?case by simp
next
  case (Cons m ms)
  obtain metric_name sc where m: "m = (metric_name, sc)" by (cases m)
  show ?case
  proof (cases "cross_val_score L None X y sc cv")
    case (Inl e')
    with Cons.prems m show ?thesis by auto
  next
    case (Inr cv_score)
    obtain r' est'' evs' where rest: "cv_loop L None X y cv ms = (r', est'', evs')"
      by (cases "cv_loop L None X y cv ms")
    with Cons.prems m Inr have "r' = Inl e" by (simp add: after_cross_val_def)
    with rest Cons.IH have "\<exists>sc \<in> snd ` set ms. cross_val_score L None X y sc cv = Inl e"
      by blast
    then show ?thesis by auto
  qed
qed

lemma cv_loop_first:
  "take 1 (snd (snd (cv_loop L est X y cv ((n, sc) # ms)))) = [CrossValScore X y sc cv]"
  by (simp split: sum.splits prod.splits)

subsection \<open>The single-fit mode\<close>

lemma roc_branch_without_predict_proba:
  "predict_proba est = None \<Longrightarrow> roc_branch L est X_val y_val = (Inr (), [])"
  by (simp add: roc_branch_def)

lemma evaluate_without_predict_proba:
  assumes "predict_proba est = None"
  shows "list_all (\<lambda>ev. \<not> roc_or_plot ev) (snd (evaluate L est X_val y_val))"
  using assms
  by (simp add: evaluate_def roc_branch_without_predict_proba
           split: option.splits sum.splits)

lemma single_fit_no_roc:
  assumes "predict_proba est = None"
  shows "list_all (\<lambda>ev. \<not> roc_or_plot ev)
           (snd (snd (single_fit L X_train y_train X_val y_val (Some est))))"
proof (cases "fit est")
  case None
  then show ?thesis by (simp add: single_fit_def)
next
  case (Some fit_m)
  obtain r s where f: "fit_m X_train y_train (state est) = (r, s)"
    by (cases "fit_m X_train y_train (state est)")
  have pp: "predict_proba (est\<lparr>state := s\<rparr>) = None" using assms by simp
  show ?thesis
  proof (cases r)
    case (Inl e)
    with Some f show ?thesis by (simp add: single_fit_def)
  next
    case (Inr u)
    from evaluate_without_predict_proba [OF pp, of L X_val y_val]
    show ?thesis using Some f Inr by (auto simp: single_fit_def split: prod.splits)
  qed
qed

text \<open>
  Whatever the arguments are and wherever the run ends, an estimator without
  \<^verbatim>\<open>predict_proba\<close> gives a single-fit run with no ROC and no plotting event.
\<close>

lemma no_roc_without_predict_proba:
  assumes "predict_proba est = None"
  shows "list_all (\<lambda>ev. \<not> roc_or_plot ev)
           (snd (snd (train_classifier L X_train y_train X_val y_val (Some est) False cv)))"
  using single_fit_no_roc [OF assms]
  by (simp add: train_classifier_def split: option.splits)







subsection \<open>The import\<close>


subsection \<open>Name resolution in \<^verbatim>\<open>feature_importance\<close>\<close>

text \<open>
  \<^verbatim>\<open>col_names\<close> is no parameter of the function, no global of the module and no builtin:
  whatever the caller passes as \<^verbatim>\<open>col_name\<close>, the name does not resolve.
\<close>

lemma col_names_unbound:
  "lookup_name [(''estimator'', PyObject ''estimator''), (''col_name'', col_name)] ''col_names''
     = None"
  by (simp add: lookup_name_def module_globals_def builtins_def)

lemma feature_importance_NameError:
  "hasattr_feature_importances estimator \<Longrightarrow>
     feature_importance sort_values estimator col_name
       = (Inl (NameError ''name 'col_names' is not defined''), [])"
  by (simp add: feature_importance_def col_names_unbound)

subsection \<open>The concrete collaborators\<close>

lemma const_classifier_fields:
  "predict_proba const_classifier = None"
  "fit const_classifier = Some (\<lambda>X y s. (Inr (), Suc s))"
  "predict const_classifier = Some (\<lambda>X s. Inr (map (\<lambda>row. 1) X))"
  "state const_classifier = 0"
  by (simp_all add: const_classifier_def)




lemma forest_has_importances: "hasattr_feature_importances (Some forest)"
  by (simp add: hasattr_feature_importances_def forest_def)

lemma unit_sklearn_fields:
  "classification_report unit_sklearn y_true y_pred = Inr ''report''"
  "confusion_matrix unit_sklearn y_true y_pred = Inr [[length y_true]]"
  "str_ndarray unit_sklearn m = ''[[..]]''"
  by (simp_all add: unit_sklearn_def)

lemma unit_refuses_metric:
  "cross_val_score unit_sklearn est X y accuracy_score cv = Inl (metric_as_scoring accuracy_score)"
  by (simp add: unit_sklearn_def check_scoring_def startswith_def)

lemma unit_clones: "cross_val_state unit_sklearn e X y sc cv = state e"
  by (simp add: unit_sklearn_def)

lemma strict_clones: "cross_val_state strict_sklearn e X y sc cv = state e"
  by (simp add: strict_sklearn_def unit_sklearn_def)

lemma strict_rejects_None:
  "cross_val_score strict_sklearn None X y sc cv
     = Inl (TypeError ''estimator should implement 'fit', None was passed'')"
  by (simp add: strict_sklearn_def)




section \<open>The claims\<close>

subsection \<open>C1: cross-validation mode\<close>

text \<open>
  C1 says that with \<^verbatim>\<open>cross_validate=True\<close> a cross-validation runs for each of the four metrics
  and that each metric's name is printed with the mean and the standard deviation of its
  scores. Lines 55-64 hand the metric functions themselves to \<open>cross_val_score\<close> as
  \<^verbatim>\<open>scoring\<close>. Whenever \<open>cross_val_score\<close> refuses the first of them, as scikit-learn refuses a
  metric function where it expects a scorer, the call of \<open>train_classifier\<close> on given data ends
  there with that error: one call of \<open>cross_val_score\<close>, no score, and nothing printed.
\<close>

theorem cross_validate_metric_refused:
  assumes "cross_val_score L est Xt yt accuracy_score cv = Inl e"
  shows "train_classifier L (Some Xt) (Some yt) (Some Xv) (Some yv) est True cv =
           (Inl e, after_cross_val L est Xt yt accuracy_score cv,
            [CrossValScore Xt yt accuracy_score cv])"
  using assms by (simp add: train_classifier_def scorers_def)

theorem cross_validate_metric_refused_witness:
  "cross_val_score unit_sklearn (Some const_classifier) [[0], [1]] [0, 1] accuracy_score 5
     = Inl (metric_as_scoring accuracy_score)
   \<and> train_classifier unit_sklearn (Some [[0], [1]]) (Some [0, 1]) (Some [[0]]) (Some [1])
       (Some const_classifier) True 5 =
     (Inl (metric_as_scoring accuracy_score), Some const_classifier,
      [CrossValScore [[0], [1]] [0, 1] accuracy_score 5])"
  using cross_validate_metric_refused
          [of unit_sklearn "Some const_classifier" "[[0], [1]]" "[0, 1]" 5
              "metric_as_scoring accuracy_score" "[[0]]" "[1]", OF unit_refuses_metric]
  by (simp add: unit_refuses_metric after_cross_val_def unit_clones)

subsection \<open>C2 and C3: the name list of \<^verbatim>\<open>feature_importance\<close>\<close>

text \<open>
  C2 says that a name argument that is no list, or a list of the wrong length, makes the call
  fail with the \<^verbatim>\<open>ValueError\<close> of line 109. The check of line 108 reads \<^verbatim>\<open>col_names\<close>, while the
  parameter is \<^verbatim>\<open>col_name\<close>: for an estimator with three importance scores, a list of two
  names and a tuple of three names both end in a \<^verbatim>\<open>NameError\<close>, with no figure made.
\<close>

theorem feature_importance_wrong_names_NameError:
  "feature_importance sort_values (Some forest) (PyList [''a'', ''b''])
     = (Inl (NameError ''name 'col_names' is not defined''), [])
   \<and> feature_importance sort_values (Some forest) (PyTuple [''a'', ''b'', ''c''])
     = (Inl (NameError ''name 'col_names' is not defined''), [])"
  by (simp add: feature_importance_NameError forest_has_importances)

theorem feature_importance_wrong_names_NameError_witness:
  "feature_importance (\<lambda>by ascending data. data) (Some forest) (PyList [''a'', ''b''])
     = (Inl (NameError ''name 'col_names' is not defined''), [])
   \<and> feature_importance (\<lambda>by ascending data. data) (Some forest) (PyTuple [''a'', ''b'', ''c''])
     = (Inl (NameError ''name 'col_names' is not defined''), [])"
  by (rule feature_importance_wrong_names_NameError)

text \<open>
  C3 says that for importance scores \<open>[0.1, 0.5, 0.4]\<close> and the names \<open>a\<close>, \<open>b\<close>, \<open>c\<close> the
  function builds the sorted table and returns the figure and the axes. The same undefined
  name ends this call in a \<^verbatim>\<open>NameError\<close> at line 108, before any table is built.
\<close>

theorem feature_importance_matching_names_NameError:
  "feature_importance sort_values (Some forest) (PyList [''a'', ''b'', ''c''])
     = (Inl (NameError ''name 'col_names' is not defined''), [])"
  by (simp add: feature_importance_NameError forest_has_importances)

theorem feature_importance_matching_names_NameError_witness:
  "feature_importance (\<lambda>by ascending data. data) (Some forest) (PyList [''a'', ''b'', ''c''])
     = (Inl (NameError ''name 'col_names' is not defined''), [])"
  by (rule feature_importance_matching_names_NameError)

subsection \<open>C4: backend selection at import\<close>

text \<open>
  C4 says that on Darwin an interactive backend is selected and the import completes. Line 14
  calls \<^verbatim>\<open>plt.switch_backend()\<close> without the backend it has to name: on Darwin the import ends
  in a \<^verbatim>\<open>TypeError\<close> and no backend is selected.
\<close>

theorem module_load_Darwin:
  "module_load ''Darwin'' =
     (Inl (TypeError (''switch_backend() missing 1 required positional argument: 'newbackend''
                      @ [CHR 0x27])), [])"
  by (simp add: module_load_def)

subsection \<open>C5: null data arguments\<close>

text \<open>
  C5: when one of \<^verbatim>\<open>X_train\<close>, \<^verbatim>\<open>y_train\<close>, \<^verbatim>\<open>X_val\<close>, \<^verbatim>\<open>y_val\<close> is null and the others are
  given, \<open>train_classifier\<close> fails with the \<^verbatim>\<open>ValueError\<close> that names the missing argument, in
  either mode and for any estimator; nothing is fitted, predicted or printed, and the
  estimator is as it was.
\<close>

theorem train_classifier_null_argument:
  "train_classifier L None (Some yt) (Some Xv) (Some yv) est cross_validate cv
     = (Inl (ValueError ''X_train is None''), est, [])
   \<and> train_classifier L (Some Xt) None (Some Xv) (Some yv) est cross_validate cv
     = (Inl (ValueError ''y_train is None''), est, [])
   \<and> train_classifier L (Some Xt) (Some yt) None (Some yv) est cross_validate cv
     = (Inl (ValueError ''X_val is None''), est, [])
   \<and> train_classifier L (Some Xt) (Some yt) (Some Xv) None est cross_validate cv
     = (Inl (ValueError ''y_val is None''), est, [])"
  by (simp add: train_classifier_def)

theorem train_classifier_null_argument_witness:
  "train_classifier unit_sklearn None (Some [1]) (Some [[0]]) (Some [1])
       (Some const_classifier) False 5
     = (Inl (ValueError ''X_train is None''), Some const_classifier, [])
   \<and> train_classifier unit_sklearn (Some [[0]]) None (Some [[0]]) (Some [1])
       (Some const_classifier) False 5
     = (Inl (ValueError ''y_train is None''), Some const_classifier, [])
   \<and> train_classifier unit_sklearn (Some [[0]]) (Some [1]) None (Some [1])
       (Some const_classifier) False 5
     = (Inl (ValueError ''X_val is None''), Some const_classifier, [])
   \<and> train_classifier unit_sklearn (Some [[0]]) (Some [1]) (Some [[0]]) None
       (Some const_classifier) False 5
     = (Inl (ValueError ''y_val is None''), Some const_classifier, [])"
  by (rule train_classifier_null_argument)

subsection \<open>C6: an estimator without importance scores\<close>

text \<open>
  C6: for an estimator without the attribute \<^verbatim>\<open>feature_importances_\<close> (\<^verbatim>\<open>None\<close> included),
  \<open>feature_importance\<close> fails with the \<^verbatim>\<open>ValueError\<close> of line 106, the missing-capability
  error, whatever the name argument is; no table and no figure is made before.
\<close>

theorem feature_importance_missing_attribute:
  "\<not> hasattr_feature_importances estimator \<Longrightarrow>
     feature_importance sort_values estimator col_name =
       (Inl (ValueError ''The estimator does not have a 'feature_importances_' attribute.''),
        [])"
  by (simp add: feature_importance_def)

theorem feature_importance_missing_attribute_witness:
  "\<not> hasattr_feature_importances (Some const_classifier)
   \<and> feature_importance (\<lambda>by ascending data. data) (Some const_classifier) (PyList [''a''])
     = (Inl (ValueError ''The estimator does not have a 'feature_importances_' attribute.''),
        [])"
proof -
  have h: "\<not> hasattr_feature_importances (Some const_classifier)"
    by (simp add: hasattr_feature_importances_def const_classifier_def)
  from h feature_importance_missing_attribute [OF h] show ?thesis by simp
qed

subsection \<open>C7: single-fit mode without \<^verbatim>\<open>predict_proba\<close>\<close>

text \<open>
  C7: for an estimator without \<^verbatim>\<open>predict_proba\<close>, a call in single-fit mode on given data, whose
  fit, prediction, classification report and confusion matrix succeed, fits the estimator,
  predicts on \<^verbatim>\<open>X_val\<close>, prints the report and the confusion matrix and returns: the run has
  these four events and no other, so no ROC computation and no plotting call.
\<close>

theorem single_fit_mode_without_predict_proba:
  assumes "predict_proba est = None"
    and "fit est = Some fit_m"
    and "fit_m Xt yt (state est) = (Inr (), s)"
    and "predict est = Some predict_m"
    and "predict_m Xv s = Inr y_pred"
    and "classification_report L yv y_pred = Inr report"
    and "confusion_matrix L yv y_pred = Inr cm"
  shows "train_classifier L (Some Xt) (Some yt) (Some Xv) (Some yv) (Some est) False cv =
           (Inr (), Some (est\<lparr>state := s\<rparr>),
            [Fit Xt yt,
             Predict Xv,
             Print report,
             Print (''Confusion Matrix:'' @ [CHR 0x0A] @ '' '' @ str_ndarray L cm)])
         \<and> list_all (\<lambda>ev. \<not> roc_or_plot ev)
             (snd (snd (train_classifier L (Some Xt) (Some yt) (Some Xv) (Some yv) (Some est)
                          False cv)))"
proof -
  have "roc_branch L (est\<lparr>state := s\<rparr>) Xv yv = (Inr (), [])"
    using assms(1) by (simp add: roc_branch_def)
  then have "evaluate L (est\<lparr>state := s\<rparr>) Xv yv =
      (Inr (), [Predict Xv, Print report,
                Print (''Confusion Matrix:'' @ [CHR 0x0A] @ '' '' @ str_ndarray L cm)])"
    using assms(4-7) by (simp add: evaluate_def)
  then have "single_fit L Xt yt Xv yv (Some est) =
      (Inr (), Some (est\<lparr>state := s\<rparr>),
       [Fit Xt yt, Predict Xv, Print report,
        Print (''Confusion Matrix:'' @ [CHR 0x0A] @ '' '' @ str_ndarray L cm)])"
    using assms(2,3) by (simp add: single_fit_def)
  then show ?thesis by (simp add: train_classifier_def)
qed

theorem single_fit_mode_without_predict_proba_witness:
  "train_classifier unit_sklearn (Some [[0], [1]]) (Some [0, 1]) (Some [[0]]) (Some [1])
       (Some const_classifier) False 5 =
     (Inr (), Some (const_classifier\<lparr>state := 1\<rparr>),
      [Fit [[0], [1]] [0, 1],
       Predict [[0]],
       Print ''report'',
       Print (''Confusion Matrix:'' @ [CHR 0x0A] @ '' [[..]]'')])"
  using single_fit_mode_without_predict_proba
          [of const_classifier "\<lambda>X y s. (Inr (), Suc s)" "[[0], [1]]" "[0, 1]" 1
              "\<lambda>X s. Inr (map (\<lambda>row. 1) X)" "[[0]]" "[1]" unit_sklearn "[1]" "''report''"
              "[[1]]" 5]
  by (simp add: const_classifier_fields unit_sklearn_fields)

subsection \<open>C8: what the module changes\<close>




subsection \<open>C9: validation data in cross-validation mode\<close>

text \<open>
  C9: the checks of lines 48-52 run before the branch of line 54. With \<^verbatim>\<open>cross_validate=True\<close>
  and training data given, a null \<^verbatim>\<open>X_val\<close> (whatever \<^verbatim>\<open>y_val\<close> is) or a null \<^verbatim>\<open>y_val\<close> ends the
  call with the \<^verbatim>\<open>ValueError\<close> for that argument, and no cross-validation has run.
\<close>

theorem cross_validate_requires_validation_data:
  "train_classifier L (Some Xt) (Some yt) None y_val est True cv
     = (Inl (ValueError ''X_val is None''), est, [])
   \<and> train_classifier L (Some Xt) (Some yt) (Some Xv) None est True cv
     = (Inl (ValueError ''y_val is None''), est, [])"
  by (simp add: train_classifier_def)

theorem cross_validate_requires_validation_data_witness:
  "train_classifier unit_sklearn (Some [[0]]) (Some [1]) None None
       (Some const_classifier) True 5
     = (Inl (ValueError ''X_val is None''), Some const_classifier, [])
   \<and> train_classifier unit_sklearn (Some [[0]]) (Some [1]) (Some [[0]]) None
       (Some const_classifier) True 5
     = (Inl (ValueError ''y_val is None''), Some const_classifier, [])"
  by (rule cross_validate_requires_validation_data)

subsection \<open>C10: the estimator is not checked\<close>

text \<open>
  C10: with the four data arguments given and \<^verbatim>\<open>None\<close> as the estimator, no check of lines
  42-52 raises. In single-fit mode the call fails at \<^verbatim>\<open>estimator.fit\<close> (line 67) with an
  \<^verbatim>\<open>AttributeError\<close>; in cross-validation mode the run reaches the first \<open>cross_val_score\<close>
  call (line 63), and an error of the call is an error that some \<open>cross_val_score\<close> call
  returned.
\<close>

theorem train_classifier_estimator_unchecked:
  "train_classifier L (Some Xt) (Some yt) (Some Xv) (Some yv) None False cv
     = (Inl (AttributeError ''fit''), None, [])
   \<and> take 1 (snd (snd (train_classifier L (Some Xt) (Some yt) (Some Xv) (Some yv) None True cv)))
     = [CrossValScore Xt yt accuracy_score cv]
   \<and> (\<forall>e. fst (train_classifier L (Some Xt) (Some yt) (Some Xv) (Some yv) None True cv) = Inl e
        \<longrightarrow> (\<exists>sc \<in> snd ` set scorers. cross_val_score L None Xt yt sc cv = Inl e))"
proof (intro conjI allI impI)
  show "train_classifier L (Some Xt) (Some yt) (Some Xv) (Some yv) None False cv
     = (Inl (AttributeError ''fit''), None, [])"
    by (simp add: train_classifier_def single_fit_def)
next
  have "take 1 (snd (snd (cv_loop L None Xt yt cv scorers)))
          = [CrossValScore Xt yt accuracy_score cv]"
    unfolding scorers_def by (rule cv_loop_first)
  then show "take 1 (snd (snd (train_classifier L (Some Xt) (Some yt) (Some Xv) (Some yv) None
                                  True cv)))
     = [CrossValScore Xt yt accuracy_score cv]"
    by (auto simp: train_classifier_def split: prod.splits)
next
  fix e
  assume "fst (train_classifier L (Some Xt) (Some yt) (Some Xv) (Some yv) None True cv) = Inl e"
  then obtain est' evs where "cv_loop L None Xt yt cv scorers = (Inl e, est', evs)"
    by (cases "cv_loop L None Xt yt cv scorers") (auto simp: train_classifier_def)
  then show "\<exists>sc \<in> snd ` set scorers. cross_val_score L None Xt yt sc cv = Inl e"
    by (rule cv_loop_error)
qed

theorem train_classifier_estimator_unchecked_witness:
  "train_classifier strict_sklearn (Some [[0]]) (Some [1]) (Some [[0]]) (Some [1]) None False 5
     = (Inl (AttributeError ''fit''), None, [])
   \<and> train_classifier strict_sklearn (Some [[0]]) (Some [1]) (Some [[0]]) (Some [1]) None True 5
     = (Inl (TypeError ''estimator should implement 'fit', None was passed''), None,
        [CrossValScore [[0]] [1] accuracy_score 5])
   \<and> cross_val_score strict_sklearn None [[0]] [1] accuracy_score 5
     = Inl (TypeError ''estimator should implement 'fit', None was passed'')"
  using train_classifier_estimator_unchecked
          [of strict_sklearn "[[0]]" "[1]" "[[0]]" "[1]" 5]
  by (simp add: train_classifier_def scorers_def strict_rejects_None after_cross_val_def)

end
